theory Spec2Isabelle
  imports Complex_Main "HOL-Library.Word"
begin

section \<open>Numbers: float64 and int64 values as numpy computes with them\<close>

text \<open>
  A float of the simulation is a numpy float64. The model keeps the shape of
  IEEE arithmetic and drops its rounding: a finite value is an exact real, and the three
  special values are kept, because numpy's float division by zero does not raise
  (it warns and yields \<open>inf\<close>, \<open>-inf\<close> or \<open>nan\<close>). Zero is unsigned here: a zero
  divisor counts as \<open>+0.0\<close>. Overflow of finite values to infinity is not modelled.
  Scalars are float64 as well, as every product or quotient with a numpy value returns
  them.

  \<open>np.array\<close> of Python ints builds an int64 array, and so does the driver for its rotor
  speeds. An int64 is a 64-bit word read as a signed number: sums and products wrap
  modulo \<open>2\<^sup>6\<^sup>4\<close>. Turned into a float64 it is the real number it denotes (the rounding
  of integers beyond \<open>2\<^sup>5\<^sup>3\<close> is dropped, like all rounding). Python ints outside the
  range of int64 are not modelled. The parameters of the constructors, the angles, the
  disturbance and the arguments of the observer and of the compensator are floats, as the
  driver passes them: an int there is used as the float of the same value.
\<close>

datatype npfloat = Fin real | PInf | NInf | NaN

fun is_finite :: "npfloat \<Rightarrow> bool" where
  "is_finite (Fin a) = True"
| "is_finite _ = False"

fun fl_neg :: "npfloat \<Rightarrow> npfloat" where
  "fl_neg (Fin a) = Fin (- a)"
| "fl_neg PInf = NInf"
| "fl_neg NInf = PInf"
| "fl_neg NaN = NaN"

fun fl_add :: "npfloat \<Rightarrow> npfloat \<Rightarrow> npfloat" where
  "fl_add (Fin a) (Fin b) = Fin (a + b)"
| "fl_add NaN _ = NaN"
| "fl_add _ NaN = NaN"
| "fl_add PInf NInf = NaN"
| "fl_add NInf PInf = NaN"
| "fl_add PInf _ = PInf"
| "fl_add _ PInf = PInf"
| "fl_add NInf _ = NInf"
| "fl_add _ NInf = NInf"

definition fl_sub :: "npfloat \<Rightarrow> npfloat \<Rightarrow> npfloat" where
  "fl_sub a b = fl_add a (fl_neg b)"

text \<open>The product of an infinity of sign \<open>pos\<close> with the finite factor \<open>b\<close>.\<close>

definition inf_times :: "bool \<Rightarrow> real \<Rightarrow> npfloat" where
  "inf_times pos b =
     (if b = 0 then NaN else if (0 < b) = pos then PInf else NInf)"

fun fl_mul :: "npfloat \<Rightarrow> npfloat \<Rightarrow> npfloat" where
  "fl_mul (Fin a) (Fin b) = Fin (a * b)"
| "fl_mul NaN _ = NaN"
| "fl_mul _ NaN = NaN"
| "fl_mul PInf (Fin b) = inf_times True b"
| "fl_mul NInf (Fin b) = inf_times False b"
| "fl_mul (Fin a) PInf = inf_times True a"
| "fl_mul (Fin a) NInf = inf_times False a"
| "fl_mul PInf PInf = PInf"
| "fl_mul NInf NInf = PInf"
| "fl_mul PInf NInf = NInf"
| "fl_mul NInf PInf = NInf"

fun fl_div :: "npfloat \<Rightarrow> npfloat \<Rightarrow> npfloat" where
  "fl_div (Fin a) (Fin b) =
     (if b \<noteq> 0 then Fin (a / b)
      else if a = 0 then NaN
      else if 0 < a then PInf else NInf)"
| "fl_div NaN _ = NaN"
| "fl_div _ NaN = NaN"
| "fl_div (Fin a) PInf = Fin 0"
| "fl_div (Fin a) NInf = Fin 0"
| "fl_div PInf (Fin b) = (if 0 \<le> b then PInf else NInf)"
| "fl_div NInf (Fin b) = (if 0 \<le> b then NInf else PInf)"
| "fl_div PInf PInf = NaN"
| "fl_div PInf NInf = NaN"
| "fl_div NInf PInf = NaN"
| "fl_div NInf NInf = NaN"

fun fl_abs :: "npfloat \<Rightarrow> npfloat" where
  "fl_abs (Fin a) = Fin \<bar>a\<bar>"
| "fl_abs PInf = PInf"
| "fl_abs NInf = PInf"
| "fl_abs NaN = NaN"

text \<open>Comparisons with \<open>nan\<close> are false, also \<open>nan == nan\<close>.\<close>

fun fl_lt :: "npfloat \<Rightarrow> npfloat \<Rightarrow> bool" where
  "fl_lt (Fin a) (Fin b) = (a < b)"
| "fl_lt NaN _ = False"
| "fl_lt _ NaN = False"
| "fl_lt _ NInf = False"
| "fl_lt PInf _ = False"
| "fl_lt NInf _ = True"
| "fl_lt _ PInf = True"

fun fl_eq :: "npfloat \<Rightarrow> npfloat \<Rightarrow> bool" where
  "fl_eq NaN _ = False"
| "fl_eq _ NaN = False"
| "fl_eq a b = (a = b)"

type_synonym int64 = "64 word"

definition int64_to_float :: "int64 \<Rightarrow> npfloat" where
  "int64_to_float w = Fin (real_of_int (sint w))"

fun np_cos :: "npfloat \<Rightarrow> npfloat" where
  "np_cos (Fin a) = Fin (cos a)"
| "np_cos _ = NaN"

fun np_sin :: "npfloat \<Rightarrow> npfloat" where
  "np_sin (Fin a) = Fin (sin a)"
| "np_sin _ = NaN"


section \<open>Arrays\<close>

text \<open>
  The arrays of fixed shape are tuples: a 3-vector, a 3x3 matrix as its three rows, and
  the state vector \<open>[x, y, z, vx, vy, vz]\<close> as the pair of its two slices
  \<open>state[:3]\<close> and \<open>state[3:]\<close>. Rotor arrays have any length and are lists.
\<close>

type_synonym vec3 = "npfloat \<times> npfloat \<times> npfloat"
type_synonym mat3 = "vec3 \<times> vec3 \<times> vec3"
type_synonym vec6 = "vec3 \<times> vec3"

fun v3_finite :: "vec3 \<Rightarrow> bool" where
  "v3_finite (a1, a2, a3) = (is_finite a1 \<and> is_finite a2 \<and> is_finite a3)"

fun m3_finite :: "mat3 \<Rightarrow> bool" where
  "m3_finite (r1, r2, r3) = (v3_finite r1 \<and> v3_finite r2 \<and> v3_finite r3)"

definition zeros3 :: vec3 where
  "zeros3 = (Fin 0, Fin 0, Fin 0)"

definition zeros6 :: vec6 where
  "zeros6 = (zeros3, zeros3)"

fun v3_add :: "vec3 \<Rightarrow> vec3 \<Rightarrow> vec3" where
  "v3_add (a1, a2, a3) (b1, b2, b3) = (fl_add a1 b1, fl_add a2 b2, fl_add a3 b3)"

fun v3_sub :: "vec3 \<Rightarrow> vec3 \<Rightarrow> vec3" where
  "v3_sub (a1, a2, a3) (b1, b2, b3) = (fl_sub a1 b1, fl_sub a2 b2, fl_sub a3 b3)"

text \<open>\<open>k * v\<close> and \<open>v * k\<close> for a scalar \<open>k\<close>, and \<open>v / k\<close>.\<close>

fun sv_mul :: "npfloat \<Rightarrow> vec3 \<Rightarrow> vec3" where
  "sv_mul k (a1, a2, a3) = (fl_mul k a1, fl_mul k a2, fl_mul k a3)"

fun vs_mul :: "vec3 \<Rightarrow> npfloat \<Rightarrow> vec3" where
  "vs_mul (a1, a2, a3) k = (fl_mul a1 k, fl_mul a2 k, fl_mul a3 k)"

fun vs_div :: "vec3 \<Rightarrow> npfloat \<Rightarrow> vec3" where
  "vs_div (a1, a2, a3) k = (fl_div a1 k, fl_div a2 k, fl_div a3 k)"

text \<open>\<open>np.dot\<close> of two 3-vectors and of a 3x3 matrix with a 3-vector.\<close>

fun dot3 :: "vec3 \<Rightarrow> vec3 \<Rightarrow> npfloat" where
  "dot3 (a1, a2, a3) (b1, b2, b3) =
     fl_add (fl_add (fl_mul a1 b1) (fl_mul a2 b2)) (fl_mul a3 b3)"

fun np_dot :: "mat3 \<Rightarrow> vec3 \<Rightarrow> vec3" where
  "np_dot (r1, r2, r3) v = (dot3 r1 v, dot3 r2 v, dot3 r3 v)"

fun np_diag :: "vec3 \<Rightarrow> mat3" where
  "np_diag (d1, d2, d3) =
     ((d1, Fin 0, Fin 0),
      (Fin 0, d2, Fin 0),
      (Fin 0, Fin 0, d3))"

definition np_eye3 :: mat3 where
  "np_eye3 = np_diag (Fin 1, Fin 1, Fin 1)"

text \<open>\<open>R[:, 2]\<close>, the third column.\<close>

fun col2 :: "mat3 \<Rightarrow> vec3" where
  "col2 ((a11, a12, a13), (a21, a22, a23), (a31, a32, a33)) = (a13, a23, a33)"

definition np_sum :: "npfloat list \<Rightarrow> npfloat" where
  "np_sum xs = foldl fl_add (Fin 0) xs"

definition np_zeros :: "nat \<Rightarrow> npfloat list" where
  "np_zeros n = replicate n (Fin 0)"

definition np_ones :: "nat \<Rightarrow> npfloat list" where
  "np_ones n = replicate n (Fin 1)"

text \<open>\<open>np.sum\<close> of an int64 array is an int64: the sum wraps.\<close>

definition np_sum_int64 :: "int64 list \<Rightarrow> int64" where
  "np_sum_int64 ws = foldl (+) 0 ws"

text \<open>
  The array that \<open>np.array(rotor_speeds)\<close> builds: float64 when the speeds are floats (or
  floats and ints together, or none at all), int64 when all of them are ints.
\<close>

datatype rotor_array = F64 "npfloat list" | I64 "int64 list"

text \<open>
  A Python number passed to \<open>set_state\<close>, and the array \<open>np.array([x, y, z, vx, vy, vz])\<close>
  of six of them: int64 when all six are ints, float64 otherwise. The state array is the
  pair of its slices \<open>[:3]\<close> and \<open>[3:]\<close> in either case.
\<close>

datatype py_number = PyInt int64 | PyFloat npfloat

fun to_float :: "py_number \<Rightarrow> npfloat" where
  "to_float (PyInt i) = int64_to_float i"
| "to_float (PyFloat a) = a"

type_synonym ivec3 = "int64 \<times> int64 \<times> int64"

datatype state_array = StateF64 vec6 | StateI64 "ivec3 \<times> ivec3"

text \<open>\<open>a + b\<close> and \<open>v * k\<close> on int64 arrays of three elements, \<open>k\<close> an int: both wrap.\<close>

fun i3_add :: "ivec3 \<Rightarrow> ivec3 \<Rightarrow> ivec3" where
  "i3_add (a1, a2, a3) (b1, b2, b3) = (a1 + b1, a2 + b2, a3 + b3)"

fun i3_mul :: "ivec3 \<Rightarrow> int64 \<Rightarrow> ivec3" where
  "i3_mul (a1, a2, a3) k = (a1 * k, a2 * k, a3 * k)"


text \<open>
  \<open>ValueError\<close>: two shapes that do not broadcast. \<open>UFuncTypeError\<close>: an in-place
  operation whose float64 result cannot be cast into the int64 array it is to be stored in.
\<close>

datatype py_error = ValueError | UFuncTypeError

text \<open>
  An elementwise binary operation on two 1-d arrays with numpy's broadcasting: equal
  lengths pair up, an array of length one is stretched, anything else raises.
\<close>

definition np_broadcast ::
  "(npfloat \<Rightarrow> npfloat \<Rightarrow> npfloat) \<Rightarrow> npfloat list \<Rightarrow> npfloat list \<Rightarrow> py_error + npfloat list"
where
  "np_broadcast f xs ys =
     (if length xs = length ys then Inr (map2 f xs ys)
      else if length xs = 1 then Inr (map (f (hd xs)) ys)
      else if length ys = 1 then Inr (map (\<lambda>x. f x (hd ys)) xs)
      else Inl ValueError)"


section \<open>SixRotorUAV\<close>

record SixRotorUAV =
  uav_M :: npfloat
  uav_G :: npfloat
  Gamma :: mat3
  p_const :: npfloat
  state :: state_array
  euler :: vec3

definition SixRotorUAV_init :: "npfloat \<Rightarrow> npfloat \<Rightarrow> vec3 \<Rightarrow> npfloat \<Rightarrow> SixRotorUAV" where
  "SixRotorUAV_init mass g air_resistance p =
     \<lparr>uav_M = mass, uav_G = g, Gamma = np_diag air_resistance, p_const = p,
      state = StateF64 zeros6, euler = zeros3\<rparr>"

text \<open>The constructor with its default arguments.\<close>

definition SixRotorUAV_default :: SixRotorUAV where
  "SixRotorUAV_default =
     SixRotorUAV_init (Fin 1) (Fin 9.81) (Fin 0.1, Fin 0.1, Fin 0.1) (Fin 1)"

definition set_euler_angles :: "SixRotorUAV \<Rightarrow> npfloat \<Rightarrow> npfloat \<Rightarrow> npfloat \<Rightarrow> SixRotorUAV" where
  "set_euler_angles u roll pitch yaw = u\<lparr>euler := (roll, pitch, yaw)\<rparr>"


definition rotation_matrix :: "npfloat \<Rightarrow> npfloat \<Rightarrow> npfloat \<Rightarrow> mat3" where
  "rotation_matrix roll pitch yaw =
     (let cr = np_cos roll; sr = np_sin roll;
          cp = np_cos pitch; sp = np_sin pitch;
          cy = np_cos yaw; sy = np_sin yaw
      in ((fl_mul cy cp,
           fl_sub (fl_mul (fl_mul cy sp) sr) (fl_mul sy cr),
           fl_add (fl_mul (fl_mul cy sp) cr) (fl_mul sy sr)),
          (fl_mul sy cp,
           fl_add (fl_mul (fl_mul sy sp) sr) (fl_mul cy cr),
           fl_sub (fl_mul (fl_mul sy sp) cr) (fl_mul cy sr)),
          (fl_neg sp,
           fl_mul cp sr,
           fl_mul cp cr)))"

definition get_thrust_direction :: "SixRotorUAV \<Rightarrow> vec3" where
  "get_thrust_direction u =
     (case euler u of (roll, pitch, yaw) \<Rightarrow> col2 (rotation_matrix roll pitch yaw))"

text \<open>
  \<open>rotor_speeds ** 2\<close> and \<open>np.sum\<close> keep the dtype of the array: on int64 the squares
  and their sum wrap, and only the product with \<open>p_const\<close> is a float64.
\<close>

definition compute_total_thrust :: "SixRotorUAV \<Rightarrow> rotor_array \<Rightarrow> npfloat" where
  "compute_total_thrust u rotor_speeds =
     (case rotor_speeds of
        F64 xs \<Rightarrow> fl_mul (p_const u) (np_sum (map (\<lambda>s. fl_mul s s) xs))
      | I64 ws \<Rightarrow> fl_mul (p_const u) (int64_to_float (np_sum_int64 (map (\<lambda>w. w * w) ws))))"

text \<open>
  \<open>update_dynamics\<close> changes \<open>self.state\<close> in place and returns that same array: the
  model returns the vehicle as the call leaves it, and either the state returned or the
  error raised. \<open>velocity\<close> is a view of \<open>state[3:]\<close>; both slices are read before
  \<open>state[3:]\<close> is written. \<open>dt\<close> is a Python float or int.

  On a float64 state both in-place additions succeed. On an int64 state
  \<open>acceleration * dt\<close> is a float64 array all the same, and storing it raises. With a float
  \<open>dt\<close>, \<open>velocity * dt\<close> is float64 too and already the first addition,
  \<open>self.state[:3] += velocity * dt\<close>, raises, with nothing written. With an int \<open>dt\<close> the
  first addition is done in int64, the second one raises, and the position stays advanced.
  What an int64 state computes before that (thrust, acceleration) has no effect.
\<close>

definition update_dynamics ::
  "SixRotorUAV \<Rightarrow> rotor_array \<Rightarrow> py_number \<Rightarrow> vec3 \<Rightarrow> SixRotorUAV \<times> (py_error + vec6)"
where
  "update_dynamics u rotor_speeds dt disturbance =
     (case state u of
        StateF64 s \<Rightarrow>
          (let P_bar = compute_total_thrust u rotor_speeds;
               thrust_dir = get_thrust_direction u;
               velocity = snd s;
               acceleration =
                 v3_add
                   (v3_sub
                      (v3_sub (sv_mul (fl_div P_bar (uav_M u)) thrust_dir)
                              (Fin 0, Fin 0, uav_G u))
                      (vs_div (np_dot (Gamma u) velocity) (uav_M u)))
                   disturbance;
               position' = v3_add (fst s) (vs_mul velocity (to_float dt));
               velocity' = v3_add velocity (vs_mul acceleration (to_float dt));
               state' = (position', velocity')
           in (u\<lparr>state := StateF64 state'\<rparr>, Inr state'))
      | StateI64 i \<Rightarrow>
          (case dt of
             PyFloat h \<Rightarrow> (u, Inl UFuncTypeError)
           | PyInt k \<Rightarrow>
               (u\<lparr>state := StateI64 (i3_add (fst i) (i3_mul (snd i) k), snd i)\<rparr>,
                Inl UFuncTypeError)))"


section \<open>DisturbanceObserver\<close>

record DisturbanceObserver =
  obs_M :: npfloat
  gain_matrix :: mat3
  estimated_disturbance :: vec3

definition DisturbanceObserver_init :: "npfloat \<Rightarrow> mat3 option \<Rightarrow> DisturbanceObserver" where
  "DisturbanceObserver_init mass gain =
     \<lparr>obs_M = mass,
      gain_matrix = (case gain of None \<Rightarrow> np_eye3 | Some g \<Rightarrow> g),
      estimated_disturbance = zeros3\<rparr>"

text \<open>
  The local variables \<open>nominal_accel\<close>, \<open>actual_accel\<close> and \<open>error\<close> of \<open>update\<close>,
  each as a function of what it is computed from. \<open>velocity\<close> is \<open>state[3:]\<close>, and
  \<open>total_thrust\<close> is the float64 that \<open>compute_total_thrust\<close> returns.
\<close>

definition nominal_accel :: "DisturbanceObserver \<Rightarrow> vec3 \<Rightarrow> npfloat \<Rightarrow> vec3" where
  "nominal_accel ob thrust_direction total_thrust =
     v3_sub (sv_mul (fl_div total_thrust (obs_M ob)) thrust_direction)
            (Fin 0, Fin 0, Fin 9.81)"

definition actual_accel :: "vec6 \<Rightarrow> npfloat \<Rightarrow> vec3" where
  "actual_accel st dt = vs_div (snd st) dt"

definition observer_error :: "DisturbanceObserver \<Rightarrow> vec6 \<Rightarrow> vec3 \<Rightarrow> npfloat \<Rightarrow> npfloat \<Rightarrow> vec3" where
  "observer_error ob st thrust_direction total_thrust dt =
     v3_sub (actual_accel st dt) (nominal_accel ob thrust_direction total_thrust)"

text \<open>
  \<open>update\<close> adds to \<open>self.estimated_disturbance\<close> in place and returns it: the model
  returns the observer with the new estimate, and the estimate.
\<close>

definition update ::
  "DisturbanceObserver \<Rightarrow> vec6 \<Rightarrow> vec3 \<Rightarrow> npfloat \<Rightarrow> npfloat \<Rightarrow> DisturbanceObserver \<times> vec3"
where
  "update ob st thrust_direction total_thrust dt =
     (let error = observer_error ob st thrust_direction total_thrust dt;
          est' = v3_add (estimated_disturbance ob)
                        (sv_mul dt (np_dot (gain_matrix ob) error))
      in (ob\<lparr>estimated_disturbance := est'\<rparr>, est'))"

text \<open>One call of \<open>update\<close> after the other, each on the observer the last one left.\<close>

fun update_all ::
  "DisturbanceObserver \<Rightarrow> (vec6 \<times> vec3 \<times> npfloat \<times> npfloat) list \<Rightarrow> DisturbanceObserver"
where
  "update_all ob [] = ob"
| "update_all ob ((st, dir, thrust, dt) # calls) =
     update_all (fst (update ob st dir thrust dt)) calls"

text \<open>
  A call in which the acceleration proxy \<open>velocity / dt\<close> is a vector of finite numbers
  and equals the nominal acceleration, for a finite time step.
\<close>

definition zero_error_call ::
  "DisturbanceObserver \<Rightarrow> vec6 \<times> vec3 \<times> npfloat \<times> npfloat \<Rightarrow> bool"
where
  "zero_error_call ob c =
     (case c of (st, dir, thrust, dt) \<Rightarrow>
        is_finite dt \<and> v3_finite (actual_accel st dt)
        \<and> actual_accel st dt = nominal_accel ob dir thrust)"

text \<open>
  The nominal acceleration and the error as the specification writes them, with the
  gravity constant \<open>g\<close> as a parameter:
  \<open>nominalAccel = (totalThrust/M) * thrustDirection - (0,0,G)\<close> and
  \<open>error = actualAccel - nominalAccel\<close>. They are compared with the observer's own
  \<open>nominal_accel\<close> and \<open>observer_error\<close> below.
\<close>

definition spec_nominal_accel :: "npfloat \<Rightarrow> DisturbanceObserver \<Rightarrow> vec3 \<Rightarrow> npfloat \<Rightarrow> vec3" where
  "spec_nominal_accel g ob thrust_direction total_thrust =
     v3_sub (sv_mul (fl_div total_thrust (obs_M ob)) thrust_direction) (Fin 0, Fin 0, g)"

definition spec_observer_error ::
  "npfloat \<Rightarrow> DisturbanceObserver \<Rightarrow> vec6 \<Rightarrow> vec3 \<Rightarrow> npfloat \<Rightarrow> npfloat \<Rightarrow> vec3"
where
  "spec_observer_error g ob st thrust_direction total_thrust dt =
     v3_sub (actual_accel st dt) (spec_nominal_accel g ob thrust_direction total_thrust)"


section \<open>FDICompensator\<close>

record FDICompensator =
  num_rotors :: nat
  threshold :: npfloat
  rotor_states :: "npfloat list"

definition FDICompensator_init :: "nat \<Rightarrow> npfloat \<Rightarrow> FDICompensator" where
  "FDICompensator_init n thr =
     \<lparr>num_rotors = n, threshold = thr, rotor_states = np_ones n\<rparr>"

text \<open>
  The argument \<open>rotor_states\<close> of \<open>compensate_thrust\<close> is called \<open>states\<close> below:
  it is the array the caller passes, not the field of the same name.
\<close>

definition detect_faults ::
  "FDICompensator \<Rightarrow> npfloat list \<Rightarrow> npfloat list \<Rightarrow> py_error + FDICompensator \<times> npfloat list"
where
  "detect_faults c rotor_speeds expected_speeds =
     (case np_broadcast fl_sub rotor_speeds expected_speeds of
        Inl e \<Rightarrow> Inl e
      | Inr d \<Rightarrow>
          (let error = map fl_abs d;
               flags = map (\<lambda>e. if fl_lt e (threshold c) then Fin 1 else Fin 0) error
           in Inr (c\<lparr>rotor_states := flags\<rparr>, flags)))"

definition compensate_thrust :: "FDICompensator \<Rightarrow> npfloat \<Rightarrow> npfloat list \<Rightarrow> npfloat list" where
  "compensate_thrust c desired_thrust states =
     (let healthy_rotors = np_sum states
      in if fl_eq healthy_rotors (Fin 0) then np_zeros (num_rotors c)
         else (let base_thrust = fl_div desired_thrust healthy_rotors
               in map (\<lambda>s. if fl_eq s (Fin 1) then base_thrust else Fin 0) states))"



section \<open>Arithmetic on finite and non-finite values\<close>

lemma is_finite_iff: "is_finite a \<longleftrightarrow> (\<exists>x. a = Fin x)"
  by (cases a) simp_all

lemma div_zero_not_finite: "\<not> is_finite (fl_div a (Fin 0))"
  by (cases a) simp_all

lemma add_not_finite_left: "\<not> is_finite a \<Longrightarrow> \<not> is_finite (fl_add a b)"
  by (cases a; cases b) simp_all

lemma sub_not_finite_left: "\<not> is_finite a \<Longrightarrow> \<not> is_finite (fl_sub a b)"
  by (cases a; cases b) (simp_all add: fl_sub_def)

lemma mul_not_finite_right: "\<not> is_finite b \<Longrightarrow> \<not> is_finite (fl_mul a b)"
  by (cases a; cases b) (simp_all add: inf_times_def)

lemma zero_mul_not_finite: "\<not> is_finite a \<Longrightarrow> fl_mul (Fin 0) a = NaN"
  by (cases a) (simp_all add: inf_times_def)

lemma add_NaN_right: "fl_add a NaN = NaN"
  by (cases a) simp_all

lemma fl_sub_self: "fl_sub (Fin a) (Fin a) = Fin 0"
  by (simp add: fl_sub_def)

lemma fl_add_zero_right: "fl_add e (Fin 0) = e"
  by (cases e) simp_all

lemma dot3_zeros: "v3_finite r \<Longrightarrow> dot3 r zeros3 = Fin 0"
  by (cases r) (auto simp add: zeros3_def is_finite_iff)

lemma np_dot_zeros: "m3_finite g \<Longrightarrow> np_dot g zeros3 = zeros3"
  by (cases g) (simp add: dot3_zeros, simp add: zeros3_def)

lemma v3_sub_self: "v3_finite a \<Longrightarrow> v3_sub a a = zeros3"
  by (cases a) (auto simp add: zeros3_def is_finite_iff fl_sub_self)

lemma sv_mul_zeros: "is_finite dt \<Longrightarrow> sv_mul dt zeros3 = zeros3"
  by (auto simp add: zeros3_def is_finite_iff)

lemma v3_add_zeros: "v3_add e zeros3 = e"
  by (cases e) (simp add: zeros3_def fl_add_zero_right)


section \<open>Sums over rotor arrays\<close>






lemma foldl_zero_squares:
  "foldl fl_add (Fin 0) (map (\<lambda>s. fl_mul s s) (replicate n (Fin 0))) = Fin 0"
  by (induction n) simp_all

lemma np_sum_zero_squares: "np_sum (map (\<lambda>s. fl_mul s s) (np_zeros n)) = Fin 0"
  by (simp only: np_sum_def np_zeros_def foldl_zero_squares)

lemma total_thrust_empty_zeros:
  "compute_total_thrust u (F64 []) = compute_total_thrust u (F64 (np_zeros n))"
  by (simp add: compute_total_thrust_def np_sum_zero_squares) (simp add: np_sum_def)









section \<open>Total thrust\<close>





text \<open>
  C6, as the code has it. \<open>compute_total_thrust\<close> has no check of its argument: on the
  empty sequence, of which \<open>np.array\<close> makes an empty float64 array, the sum is \<open>0.0\<close> and
  the call returns \<open>p_const * 0.0\<close>, which is zero thrust for a finite \<open>p_const\<close>. It
  returns the same as for an all-zero command of any length, and so \<open>update_dynamics\<close>
  takes the same step for both.
\<close>

theorem compute_total_thrust_empty_is_zero_thrust:
  assumes "p_const u = Fin p"
  shows "compute_total_thrust u (F64 []) = Fin 0
     \<and> compute_total_thrust u (F64 []) = compute_total_thrust u (F64 (np_zeros n))
     \<and> update_dynamics u (F64 []) dt w = update_dynamics u (F64 (np_zeros n)) dt w"
proof (intro conjI)
  show "compute_total_thrust u (F64 []) = Fin 0"
    using assms by (simp add: compute_total_thrust_def np_sum_def)
  show "compute_total_thrust u (F64 []) = compute_total_thrust u (F64 (np_zeros n))"
    by (rule total_thrust_empty_zeros)
  show "update_dynamics u (F64 []) dt w = update_dynamics u (F64 (np_zeros n)) dt w"
    unfolding update_dynamics_def total_thrust_empty_zeros [of u n] by (rule refl)
qed

theorem compute_total_thrust_empty_is_zero_thrust_witness:
  "p_const SixRotorUAV_default = Fin 1
   \<and> compute_total_thrust SixRotorUAV_default (F64 []) = Fin 0
   \<and> update_dynamics SixRotorUAV_default (F64 []) (PyFloat (Fin 1)) zeros3
       = update_dynamics SixRotorUAV_default (F64 (np_zeros 6)) (PyFloat (Fin 1)) zeros3"
  using compute_total_thrust_empty_is_zero_thrust
    [where u = SixRotorUAV_default and p = 1 and n = 6 and dt = "PyFloat (Fin 1)" and w = zeros3]
  by (simp add: SixRotorUAV_default_def SixRotorUAV_init_def)

text \<open>
  C6 as it is written fails: on the simulation's vehicle, at rest and level, the empty
  rotor-speed sequence gives the thrust \<open>0\<close>, and \<open>update_dynamics\<close> with it returns the
  state after one step of free fall (\<open>vz = -9.81 * 0.01\<close>). Nothing is raised.
\<close>

theorem compute_total_thrust_empty_counterexample:
  "compute_total_thrust
       (SixRotorUAV_init (Fin 6) (Fin 9.81) (Fin 0.1, Fin 0.1, Fin 0.1) (Fin 0.05)) (F64 []) = Fin 0
   \<and> update_dynamics
       (SixRotorUAV_init (Fin 6) (Fin 9.81) (Fin 0.1, Fin 0.1, Fin 0.1) (Fin 0.05)) (F64 [])
       (PyFloat (Fin 0.01)) zeros3
     = ((SixRotorUAV_init (Fin 6) (Fin 9.81) (Fin 0.1, Fin 0.1, Fin 0.1) (Fin 0.05))
          \<lparr>state := StateF64 ((Fin 0, Fin 0, Fin 0), (Fin 0, Fin 0, Fin (- 0.0981)))\<rparr>,
        Inr ((Fin 0, Fin 0, Fin 0), (Fin 0, Fin 0, Fin (- 0.0981))))"
  by (simp add: update_dynamics_def compute_total_thrust_def np_sum_def SixRotorUAV_init_def
      get_thrust_direction_def rotation_matrix_def zeros6_def zeros3_def fl_sub_def Let_def)


section \<open>Thrust direction\<close>

lemma thrust_direction_Fin:
  "euler u = (Fin r, Fin p, Fin y) \<Longrightarrow>
   get_thrust_direction u =
     (Fin (cos y * sin p * cos r + sin y * sin r),
      Fin (sin y * sin p * cos r - cos y * sin r),
      Fin (cos p * cos r))"
  by (simp add: get_thrust_direction_def rotation_matrix_def fl_sub_def)

lemma third_column_unit:
  fixes r p y :: real
  shows "(cos y * sin p * cos r + sin y * sin r)\<^sup>2
       + (sin y * sin p * cos r - cos y * sin r)\<^sup>2
       + (cos p * cos r)\<^sup>2 = 1"
proof -
  have y: "(cos y)\<^sup>2 + (sin y)\<^sup>2 = 1" and p: "(sin p)\<^sup>2 + (cos p)\<^sup>2 = 1"
    and r: "(cos r)\<^sup>2 + (sin r)\<^sup>2 = 1"
    by simp_all
  have "(cos y * sin p * cos r + sin y * sin r)\<^sup>2
       + (sin y * sin p * cos r - cos y * sin r)\<^sup>2
       + (cos p * cos r)\<^sup>2
       = ((cos y)\<^sup>2 + (sin y)\<^sup>2) * ((sin p)\<^sup>2 * (cos r)\<^sup>2 + (sin r)\<^sup>2)
         + (cos p)\<^sup>2 * (cos r)\<^sup>2"
    by algebra
  also have "\<dots> = ((sin p)\<^sup>2 + (cos p)\<^sup>2) * (cos r)\<^sup>2 + (sin r)\<^sup>2"
    unfolding y by algebra
  also have "\<dots> = 1"
    unfolding p using r by simp
  finally show ?thesis .
qed

text \<open>
  C9. For every attitude of real angles, \<open>get_thrust_direction\<close> returns the third
  column of \<open>rotation_matrix\<close> at these angles, a vector \<open>(a, b, c)\<close> of finite numbers
  whose Euclidean norm \<open>sqrt (a\<^sup>2 + b\<^sup>2 + c\<^sup>2)\<close> is 1 (in exact arithmetic); at
  \<open>roll = pitch = yaw = 0\<close> it is \<open>(0, 0, 1)\<close>.
\<close>

theorem get_thrust_direction_unit_norm:
  "(\<exists>a b c.
      get_thrust_direction (set_euler_angles u (Fin roll) (Fin pitch) (Fin yaw))
        = (Fin a, Fin b, Fin c)
      \<and> (Fin a, Fin b, Fin c) = col2 (rotation_matrix (Fin roll) (Fin pitch) (Fin yaw))
      \<and> sqrt (a\<^sup>2 + b\<^sup>2 + c\<^sup>2) = 1)
   \<and> get_thrust_direction (set_euler_angles u (Fin 0) (Fin 0) (Fin 0)) = (Fin 0, Fin 0, Fin 1)"
proof
  let ?u = "set_euler_angles u (Fin roll) (Fin pitch) (Fin yaw)"
  have e: "euler ?u = (Fin roll, Fin pitch, Fin yaw)"
    by (simp add: set_euler_angles_def)
  have d: "get_thrust_direction ?u =
     (Fin (cos yaw * sin pitch * cos roll + sin yaw * sin roll),
      Fin (sin yaw * sin pitch * cos roll - cos yaw * sin roll),
      Fin (cos pitch * cos roll))"
    using e by (rule thrust_direction_Fin)
  have c: "get_thrust_direction ?u = col2 (rotation_matrix (Fin roll) (Fin pitch) (Fin yaw))"
    using e by (simp add: get_thrust_direction_def)
  have n: "sqrt ((cos yaw * sin pitch * cos roll + sin yaw * sin roll)\<^sup>2
       + (sin yaw * sin pitch * cos roll - cos yaw * sin roll)\<^sup>2
       + (cos pitch * cos roll)\<^sup>2) = 1"
    by (simp only: third_column_unit real_sqrt_one)
  from d c n show "\<exists>a b c. get_thrust_direction ?u = (Fin a, Fin b, Fin c)
      \<and> (Fin a, Fin b, Fin c) = col2 (rotation_matrix (Fin roll) (Fin pitch) (Fin yaw))
      \<and> sqrt (a\<^sup>2 + b\<^sup>2 + c\<^sup>2) = 1"
    by metis
  show "get_thrust_direction (set_euler_angles u (Fin 0) (Fin 0) (Fin 0)) = (Fin 0, Fin 0, Fin 1)"
    by (simp add: thrust_direction_Fin set_euler_angles_def)
qed


section \<open>One step of the dynamics\<close>







section \<open>The disturbance observer\<close>

lemma update_Fin:
  assumes "m \<noteq> 0" and "dt \<noteq> 0"
    and "obs_M ob = Fin m"
    and "gain_matrix ob =
          ((Fin k11, Fin k12, Fin k13), (Fin k21, Fin k22, Fin k23), (Fin k31, Fin k32, Fin k33))"
    and "estimated_disturbance ob = (Fin e1, Fin e2, Fin e3)"
  shows "(let ex = vx / dt - (T / m * d1 - 0);
        ey = vy / dt - (T / m * d2 - 0);
        ez = vz / dt - (T / m * d3 - 9.81);
        est = (Fin (e1 + dt * (k11 * ex + k12 * ey + k13 * ez)),
               Fin (e2 + dt * (k21 * ex + k22 * ey + k23 * ez)),
               Fin (e3 + dt * (k31 * ex + k32 * ey + k33 * ez)))
     in update ob (pos, (Fin vx, Fin vy, Fin vz)) (Fin d1, Fin d2, Fin d3) (Fin T) (Fin dt)
         = (ob\<lparr>estimated_disturbance := est\<rparr>, est))"
  using assms
  by (simp add: update_def observer_error_def actual_accel_def nominal_accel_def fl_sub_def Let_def)

lemma update_all_snoc:
  "update_all ob (calls @ [(st, dir, thrust, dt)])
     = fst (update (update_all ob calls) st dir thrust dt)"
  by (induction ob calls rule: update_all.induct) simp_all

lemma update_returns_stored:
  "estimated_disturbance (fst (update ob st dir thrust dt)) = snd (update ob st dir thrust dt)"
  by (simp add: update_def Let_def)

text \<open>
  C2. For every state, thrust direction, total thrust and \<open>dt\<close>, \<open>update\<close> adds
  \<open>dt * (K * (velocity / dt - ((total_thrust / M) * thrust_direction - (0, 0, 9.81))))\<close>
  to the stored estimate, with \<open>K\<close> the gain matrix, stores the sum and returns it; 9.81
  is the gravity constant of the observer. This holds as numpy computes it for all float
  inputs (first part), and in real arithmetic when the numbers are finite, \<open>h \<noteq> 0\<close> is
  the time step and the mass \<open>m\<close> is not zero (second part). Nothing resets the estimate
  between calls: after any calls, one more call returns what \<open>update\<close> gives on the
  observer those calls left (third part).
\<close>

theorem update_adds_gain_times_error:
  "update ob st dir thrust dt =
     (let error = v3_sub (vs_div (snd st) dt)
                    (v3_sub (sv_mul (fl_div thrust (obs_M ob)) dir) (Fin 0, Fin 0, Fin 9.81));
          est = v3_add (estimated_disturbance ob) (sv_mul dt (np_dot (gain_matrix ob) error))
      in (ob\<lparr>estimated_disturbance := est\<rparr>, est))
   \<and> (obs_M ob = Fin m \<and> m \<noteq> 0 \<and> h \<noteq> 0
        \<and> gain_matrix ob =
            ((Fin k11, Fin k12, Fin k13), (Fin k21, Fin k22, Fin k23), (Fin k31, Fin k32, Fin k33))
        \<and> estimated_disturbance ob = (Fin e1, Fin e2, Fin e3) \<longrightarrow>
       (let ex = vx / h - (T / m * d1 - 0);
            ey = vy / h - (T / m * d2 - 0);
            ez = vz / h - (T / m * d3 - 9.81);
            est = (Fin (e1 + h * (k11 * ex + k12 * ey + k13 * ez)),
                   Fin (e2 + h * (k21 * ex + k22 * ey + k23 * ez)),
                   Fin (e3 + h * (k31 * ex + k32 * ey + k33 * ez)))
        in update ob (pos, (Fin vx, Fin vy, Fin vz)) (Fin d1, Fin d2, Fin d3) (Fin T) (Fin h)
             = (ob\<lparr>estimated_disturbance := est\<rparr>, est)))
   \<and> estimated_disturbance (update_all ob (calls @ [(st, dir, thrust, dt)]))
       = snd (update (update_all ob calls) st dir thrust dt)"
proof (intro conjI impI)
  show "update ob st dir thrust dt =
     (let error = v3_sub (vs_div (snd st) dt)
                    (v3_sub (sv_mul (fl_div thrust (obs_M ob)) dir) (Fin 0, Fin 0, Fin 9.81));
          est = v3_add (estimated_disturbance ob) (sv_mul dt (np_dot (gain_matrix ob) error))
      in (ob\<lparr>estimated_disturbance := est\<rparr>, est))"
    by (simp add: update_def observer_error_def actual_accel_def nominal_accel_def Let_def)
next
  assume "obs_M ob = Fin m \<and> m \<noteq> 0 \<and> h \<noteq> 0
        \<and> gain_matrix ob =
            ((Fin k11, Fin k12, Fin k13), (Fin k21, Fin k22, Fin k23), (Fin k31, Fin k32, Fin k33))
        \<and> estimated_disturbance ob = (Fin e1, Fin e2, Fin e3)"
  then have "m \<noteq> 0" and "h \<noteq> 0" and "obs_M ob = Fin m"
    and "gain_matrix ob =
            ((Fin k11, Fin k12, Fin k13), (Fin k21, Fin k22, Fin k23), (Fin k31, Fin k32, Fin k33))"
    and "estimated_disturbance ob = (Fin e1, Fin e2, Fin e3)"
    by simp_all
  then show "(let ex = vx / h - (T / m * d1 - 0);
            ey = vy / h - (T / m * d2 - 0);
            ez = vz / h - (T / m * d3 - 9.81);
            est = (Fin (e1 + h * (k11 * ex + k12 * ey + k13 * ez)),
                   Fin (e2 + h * (k21 * ex + k22 * ey + k23 * ez)),
                   Fin (e3 + h * (k31 * ex + k32 * ey + k33 * ez)))
        in update ob (pos, (Fin vx, Fin vy, Fin vz)) (Fin d1, Fin d2, Fin d3) (Fin T) (Fin h)
             = (ob\<lparr>estimated_disturbance := est\<rparr>, est))"
    by (rule update_Fin)
next
  show "estimated_disturbance (update_all ob (calls @ [(st, dir, thrust, dt)]))
         = snd (update (update_all ob calls) st dir thrust dt)"
    by (simp only: update_all_snoc update_returns_stored)
qed

text \<open>
  The theorem at the simulation's observer (mass 6, identity gain, estimate zero), for
  the velocity \<open>(0.1, 0, -0.2)\<close>, a level thrust direction, total thrust 60 and
  \<open>dt = 0.1\<close>: the error is \<open>(1, 0, -2.19)\<close>. Then the same call once more, on the
  observer the first call left.
\<close>

theorem update_adds_gain_times_error_witness:
  "(6::real) \<noteq> 0 \<and> (0.1::real) \<noteq> 0
   \<and> snd (update (DisturbanceObserver_init (Fin 6) None)
            (zeros3, (Fin 0.1, Fin 0, Fin (- 0.2))) (Fin 0, Fin 0, Fin 1) (Fin 60) (Fin 0.1))
       = (Fin 0.1, Fin 0, Fin (- 0.219))
   \<and> estimated_disturbance
        (update_all (DisturbanceObserver_init (Fin 6) None)
           ([((zeros3, (Fin 0.1, Fin 0, Fin (- 0.2))), (Fin 0, Fin 0, Fin 1), Fin 60, Fin 0.1)]
            @ [((zeros3, (Fin 0.1, Fin 0, Fin (- 0.2))), (Fin 0, Fin 0, Fin 1), Fin 60, Fin 0.1)]))
       = (Fin 0.2, Fin 0, Fin (- 0.438))"
  using update_adds_gain_times_error
    [where ob = "DisturbanceObserver_init (Fin 6) None" and m = 6 and h = "0.1"
       and ?k11.0 = 1 and ?k12.0 = 0 and ?k13.0 = 0
       and ?k21.0 = 0 and ?k22.0 = 1 and ?k23.0 = 0
       and ?k31.0 = 0 and ?k32.0 = 0 and ?k33.0 = 1 and ?e1.0 = 0 and ?e2.0 = 0 and ?e3.0 = 0
       and vx = "0.1" and vy = 0 and vz = "- 0.2" and T = 60
       and ?d1.0 = 0 and ?d2.0 = 0 and ?d3.0 = 1 and pos = zeros3
       and calls = "[((zeros3, (Fin 0.1, Fin 0, Fin (- 0.2))), (Fin 0, Fin 0, Fin 1), Fin 60, Fin 0.1)]"
       and st = "(zeros3, (Fin 0.1, Fin 0, Fin (- 0.2)))" and dir = "(Fin 0, Fin 0, Fin 1)"
       and thrust = "Fin 60" and dt = "Fin 0.1"]
  by (simp add: DisturbanceObserver_init_def np_eye3_def zeros3_def update_def
      observer_error_def actual_accel_def nominal_accel_def fl_sub_def Let_def)

lemma error_not_finite:
  "observer_error ob (pos, (v1, v2, v3)) (d1, d2, d3) thrust (Fin 0) = (x1, x2, x3)
   \<Longrightarrow> \<not> is_finite x1 \<and> \<not> is_finite x2 \<and> \<not> is_finite x3"
  by (auto simp add: observer_error_def actual_accel_def nominal_accel_def
        sub_not_finite_left div_zero_not_finite)

lemma div_zero_inf_or_nan: "fl_div a (Fin 0) = PInf \<or> fl_div a (Fin 0) = NInf \<or> fl_div a (Fin 0) = NaN"
  by (cases a) simp_all

lemma nan_estimate_stays:
  assumes "estimated_disturbance ob = (NaN, NaN, NaN)"
  shows "update ob st dir thrust dt = (ob, (NaN, NaN, NaN))"
proof -
  have "v3_add (NaN, NaN, NaN) v = (NaN, NaN, NaN)" for v
    by (cases v) simp
  then show ?thesis
    using assms by (simp add: update_def Let_def)
qed

lemma nan_estimate_stays_all:
  "estimated_disturbance ob = (NaN, NaN, NaN) \<Longrightarrow> update_all ob calls = ob"
  by (induction calls) (auto simp add: nan_estimate_stays)

text \<open>
  C7, as the code has it. With \<open>dt = 0\<close> numpy's division does not raise: every
  component of \<open>velocity / dt\<close> is \<open>inf\<close>, \<open>-inf\<close> or \<open>nan\<close> (second part), and
  whatever the state, the thrust, the mass, the gain matrix and the estimate so far,
  \<open>update\<close> returns normally, and the estimate it stores and returns is \<open>nan\<close> in its
  three components (first part). So no finite estimate comes out, and no failure reaches
  the caller either. The stored estimate stays \<open>nan\<close> from then on: after any further
  calls it is \<open>nan\<close> in its three components (third part), and so is what any further
  call returns (fourth part).
\<close>

theorem update_dt_zero_returns_nan:
  "update ob st dir thrust (Fin 0)
     = (ob\<lparr>estimated_disturbance := (NaN, NaN, NaN)\<rparr>, (NaN, NaN, NaN))
   \<and> (\<exists>a1 a2 a3. actual_accel st (Fin 0) = (a1, a2, a3)
         \<and> (a1 = PInf \<or> a1 = NInf \<or> a1 = NaN)
         \<and> (a2 = PInf \<or> a2 = NInf \<or> a2 = NaN)
         \<and> (a3 = PInf \<or> a3 = NInf \<or> a3 = NaN))
   \<and> estimated_disturbance (update_all (fst (update ob st dir thrust (Fin 0))) calls)
       = (NaN, NaN, NaN)
   \<and> snd (update (update_all (fst (update ob st dir thrust (Fin 0))) calls) st' dir' thrust' dt')
       = (NaN, NaN, NaN)"
proof (intro conjI)
  obtain pos v1 v2 v3 where st: "st = (pos, (v1, v2, v3))"
    by (metis prod.exhaust)
  obtain d1 d2 d3 where dir: "dir = (d1, d2, d3)"
    by (metis prod.exhaust)
  obtain x1 x2 x3 where err: "observer_error ob st dir thrust (Fin 0) = (x1, x2, x3)"
    by (metis prod.exhaust)
  obtain r1 r2 r3 where gm: "gain_matrix ob = (r1, r2, r3)"
    by (metis prod.exhaust)
  obtain e1 e2 e3 where est: "estimated_disturbance ob = (e1, e2, e3)"
    by (metis prod.exhaust)
  have x1: "\<not> is_finite x1"
    using error_not_finite [OF err [unfolded st dir]] by simp
  have row: "\<not> is_finite (dot3 r (x1, x2, x3))" for r
    using x1 by (cases r) (simp add: add_not_finite_left mul_not_finite_right)
  show first: "update ob st dir thrust (Fin 0)
     = (ob\<lparr>estimated_disturbance := (NaN, NaN, NaN)\<rparr>, (NaN, NaN, NaN))"
    unfolding update_def Let_def err gm est
    by (simp add: row zero_mul_not_finite add_NaN_right)
  show "\<exists>a1 a2 a3. actual_accel st (Fin 0) = (a1, a2, a3)
         \<and> (a1 = PInf \<or> a1 = NInf \<or> a1 = NaN)
         \<and> (a2 = PInf \<or> a2 = NInf \<or> a2 = NaN)
         \<and> (a3 = PInf \<or> a3 = NInf \<or> a3 = NaN)"
    unfolding st actual_accel_def
    using div_zero_inf_or_nan [of v1] div_zero_inf_or_nan [of v2] div_zero_inf_or_nan [of v3]
    by simp
  let ?ob = "fst (update ob st dir thrust (Fin 0))"
  have nan: "estimated_disturbance ?ob = (NaN, NaN, NaN)"
    unfolding first by simp
  then have later: "update_all ?ob calls = ?ob"
    by (rule nan_estimate_stays_all)
  show "estimated_disturbance (update_all ?ob calls) = (NaN, NaN, NaN)"
    unfolding later by (rule nan)
  show "snd (update (update_all ?ob calls) st' dir' thrust' dt') = (NaN, NaN, NaN)"
    unfolding later using nan_estimate_stays [OF nan] by simp
qed

text \<open>
  C7 as it is written fails: the simulation's observer, called with the velocity
  \<open>(1, 2, 3)\<close>, a level thrust direction, total thrust 60 and \<open>dt = 0\<close>, divides to
  \<open>(inf, inf, inf)\<close> and returns the estimate \<open>(nan, nan, nan)\<close>, which it has stored.
  The call returns; no division-by-zero failure is raised.
\<close>

theorem update_dt_zero_counterexample:
  "actual_accel (zeros3, (Fin 1, Fin 2, Fin 3)) (Fin 0) = (PInf, PInf, PInf)
   \<and> update (DisturbanceObserver_init (Fin 6) None)
        (zeros3, (Fin 1, Fin 2, Fin 3)) (Fin 0, Fin 0, Fin 1) (Fin 60) (Fin 0)
     = (\<lparr>obs_M = Fin 6, gain_matrix = np_eye3, estimated_disturbance = (NaN, NaN, NaN)\<rparr>,
        (NaN, NaN, NaN))"
  by (simp add: DisturbanceObserver_init_def np_eye3_def zeros3_def update_def
      observer_error_def actual_accel_def nominal_accel_def fl_sub_def Let_def inf_times_def)


lemma update_zero_error:
  assumes "is_finite dt" and "m3_finite (gain_matrix ob)"
    and "v3_finite (actual_accel st dt)"
    and "actual_accel st dt = nominal_accel ob dir thrust"
  shows "fst (update ob st dir thrust dt) = ob"
proof -
  have "observer_error ob st dir thrust dt = zeros3"
    unfolding observer_error_def assms(4) [symmetric] using assms(3) by (rule v3_sub_self)
  then show ?thesis
    using assms(1,2) by (simp add: update_def Let_def np_dot_zeros sv_mul_zeros v3_add_zeros)
qed

lemma update_all_zero_error:
  "m3_finite (gain_matrix ob) \<Longrightarrow> list_all (zero_error_call ob) calls \<Longrightarrow>
   update_all ob calls = ob"
  by (induction calls) (auto simp add: zero_error_call_def update_zero_error)

text \<open>
  C8. Take a freshly constructed observer whose gain matrix holds finite numbers. For
  every finite sequence of \<open>update\<close> calls, each with a finite time step and with
  \<open>velocity / dt\<close> a vector of finite numbers equal to the nominal acceleration of that
  call, the estimate after the sequence is \<open>(0, 0, 0)\<close>, the value the constructor set.
\<close>

theorem update_all_zero_error_keeps_zero:
  assumes "ob = DisturbanceObserver_init mass gain"
    and "m3_finite (gain_matrix ob)"
    and "list_all (zero_error_call ob) calls"
  shows "estimated_disturbance (update_all ob calls) = (Fin 0, Fin 0, Fin 0)"
proof -
  have "update_all ob calls = ob"
    using assms(2,3) by (rule update_all_zero_error)
  then show ?thesis
    using assms(1) by (simp add: DisturbanceObserver_init_def zeros3_def)
qed

text \<open>
  The theorem at an observer of mass 2 with the default gain, for two calls: total thrust
  21.62 along \<open>(0, 0, 1)\<close> gives the nominal acceleration \<open>(0, 0, 1)\<close>, which is
  \<open>velocity / dt\<close> for the velocity \<open>(0, 0, 0.5)\<close> with \<open>dt = 0.5\<close>, and for the
  velocity \<open>(0, 0, 0.25)\<close> with \<open>dt = 0.25\<close>.
\<close>

theorem update_all_zero_error_keeps_zero_witness:
  "m3_finite (gain_matrix (DisturbanceObserver_init (Fin 2) None))
   \<and> zero_error_call (DisturbanceObserver_init (Fin 2) None)
        ((zeros3, (Fin 0, Fin 0, Fin 0.5)), (Fin 0, Fin 0, Fin 1), Fin 21.62, Fin 0.5)
   \<and> zero_error_call (DisturbanceObserver_init (Fin 2) None)
        ((zeros3, (Fin 0, Fin 0, Fin 0.25)), (Fin 0, Fin 0, Fin 1), Fin 21.62, Fin 0.25)
   \<and> estimated_disturbance
        (update_all (DisturbanceObserver_init (Fin 2) None)
           [((zeros3, (Fin 0, Fin 0, Fin 0.5)), (Fin 0, Fin 0, Fin 1), Fin 21.62, Fin 0.5),
            ((zeros3, (Fin 0, Fin 0, Fin 0.25)), (Fin 0, Fin 0, Fin 1), Fin 21.62, Fin 0.25)])
       = (Fin 0, Fin 0, Fin 0)"
  using update_all_zero_error_keeps_zero
    [where ob = "DisturbanceObserver_init (Fin 2) None" and mass = "Fin 2" and gain = None
       and calls =
         "[((zeros3, (Fin 0, Fin 0, Fin 0.5)), (Fin 0, Fin 0, Fin 1), Fin 21.62, Fin 0.5),
           ((zeros3, (Fin 0, Fin 0, Fin 0.25)), (Fin 0, Fin 0, Fin 1), Fin 21.62, Fin 0.25)]"]
  by (simp add: DisturbanceObserver_init_def np_eye3_def zeros3_def zero_error_call_def
      actual_accel_def nominal_accel_def fl_sub_def)

text \<open>
  C10, as the code has it. The observer has no gravity field and \<open>update\<close> reads none:
  its nominal acceleration is the specification's formula at \<open>G = 9.81\<close>, for every
  call, and \<open>update\<close>, fed with the state, the thrust direction and the total thrust
  of a vehicle, returns the same whatever gravity constant that vehicle was built with. For finite numbers (\<open>m \<noteq> 0\<close>, \<open>h \<noteq> 0\<close>) and a vehicle
  with gravity \<open>g\<close>: the observer's nominal acceleration is the one computed with \<open>g\<close>
  plus \<open>(0, 0, g - 9.81)\<close>; its error signal, which is the acceleration proxy minus the
  nominal acceleration, is the one computed with \<open>g\<close> plus \<open>(0, 0, 9.81 - g)\<close>.
\<close>

theorem update_gravity_fixed_at_9_81:
  "nominal_accel ob dir thrust = spec_nominal_accel (Fin 9.81) ob dir thrust
   \<and> state (u\<lparr>uav_G := g'\<rparr>) = state u
   \<and> update ob st (get_thrust_direction (u\<lparr>uav_G := g'\<rparr>))
        (compute_total_thrust (u\<lparr>uav_G := g'\<rparr>) speeds) dt
      = update ob st (get_thrust_direction u) (compute_total_thrust u speeds) dt
   \<and> (obs_M ob = Fin m \<and> m \<noteq> 0 \<and> h \<noteq> 0 \<and> uav_G u = Fin g \<longrightarrow>
        nominal_accel ob (Fin d1, Fin d2, Fin d3) (Fin T)
          = v3_add (spec_nominal_accel (uav_G u) ob (Fin d1, Fin d2, Fin d3) (Fin T))
                   (Fin 0, Fin 0, Fin (g - 9.81))
        \<and> observer_error ob (pos, (Fin vx, Fin vy, Fin vz)) (Fin d1, Fin d2, Fin d3) (Fin T) (Fin h)
          = v3_add (spec_observer_error (uav_G u) ob (pos, (Fin vx, Fin vy, Fin vz))
                      (Fin d1, Fin d2, Fin d3) (Fin T) (Fin h))
                   (Fin 0, Fin 0, Fin (9.81 - g)))"
proof (intro conjI impI)
  show "nominal_accel ob dir thrust = spec_nominal_accel (Fin 9.81) ob dir thrust"
    by (simp add: nominal_accel_def spec_nominal_accel_def)
  show "state (u\<lparr>uav_G := g'\<rparr>) = state u"
    by simp
  show "update ob st (get_thrust_direction (u\<lparr>uav_G := g'\<rparr>))
          (compute_total_thrust (u\<lparr>uav_G := g'\<rparr>) speeds) dt
        = update ob st (get_thrust_direction u) (compute_total_thrust u speeds) dt"
    by (simp add: get_thrust_direction_def compute_total_thrust_def split: rotor_array.split)
next
  assume "obs_M ob = Fin m \<and> m \<noteq> 0 \<and> h \<noteq> 0 \<and> uav_G u = Fin g"
  then show "nominal_accel ob (Fin d1, Fin d2, Fin d3) (Fin T)
        = v3_add (spec_nominal_accel (uav_G u) ob (Fin d1, Fin d2, Fin d3) (Fin T))
                 (Fin 0, Fin 0, Fin (g - 9.81))"
    by (simp add: nominal_accel_def spec_nominal_accel_def fl_sub_def)
next
  assume "obs_M ob = Fin m \<and> m \<noteq> 0 \<and> h \<noteq> 0 \<and> uav_G u = Fin g"
  then show "observer_error ob (pos, (Fin vx, Fin vy, Fin vz)) (Fin d1, Fin d2, Fin d3) (Fin T) (Fin h)
          = v3_add (spec_observer_error (uav_G u) ob (pos, (Fin vx, Fin vy, Fin vz))
                      (Fin d1, Fin d2, Fin d3) (Fin T) (Fin h))
                   (Fin 0, Fin 0, Fin (9.81 - g))"
    by (simp add: spec_observer_error_def observer_error_def actual_accel_def
        nominal_accel_def spec_nominal_accel_def fl_sub_def)
qed

text \<open>
  The theorem at the simulation's observer and a vehicle built with \<open>g = 9.5\<close>: for total
  thrust 60 along \<open>(0, 0, 1)\<close>, velocity \<open>(0, 0, 1)\<close> and \<open>dt = 0.5\<close> the nominal
  acceleration is \<open>(0, 0, 0.19)\<close> and the observer's error \<open>(0, 0, 1.81)\<close>, against
  \<open>(0, 0, 0.5)\<close> and \<open>(0, 0, 1.5)\<close> with \<open>g = 9.5\<close>.
\<close>

theorem update_gravity_fixed_at_9_81_witness:
  "(6::real) \<noteq> 0 \<and> (0.5::real) \<noteq> 0
   \<and> nominal_accel (DisturbanceObserver_init (Fin 6) None) (Fin 0, Fin 0, Fin 1) (Fin 60)
      = v3_add (Fin 0, Fin 0, Fin 0.5) (Fin 0, Fin 0, Fin (9.5 - 9.81))
   \<and> observer_error (DisturbanceObserver_init (Fin 6) None)
        (zeros3, (Fin 0, Fin 0, Fin 1)) (Fin 0, Fin 0, Fin 1) (Fin 60) (Fin 0.5)
      = v3_add (Fin 0, Fin 0, Fin 1.5) (Fin 0, Fin 0, Fin (9.81 - 9.5))"
  using update_gravity_fixed_at_9_81
    [where ob = "DisturbanceObserver_init (Fin 6) None" and m = 6 and h = "0.5"
       and u = "SixRotorUAV_init (Fin 6) (Fin 9.5) (Fin 0.1, Fin 0.1, Fin 0.1) (Fin 0.05)"
       and g = "9.5" and ?d1.0 = 0 and ?d2.0 = 0 and ?d3.0 = 1 and T = 60
       and pos = zeros3 and vx = 0 and vy = 0 and vz = 1
       and dir = "(Fin 0, Fin 0, Fin 1)" and thrust = "Fin 60" and g' = "Fin 9.81"
       and speeds = "F64 []" and dt = "Fin 0.5"
       and st = "(zeros3, (Fin 0, Fin 0, Fin 1))"]
  by (simp add: DisturbanceObserver_init_def SixRotorUAV_init_def zeros3_def
      spec_observer_error_def observer_error_def actual_accel_def
      nominal_accel_def spec_nominal_accel_def fl_sub_def)

text \<open>
  C10 as it is written gives the offset of the error signal the wrong sign. With a
  vehicle built with \<open>g = 10\<close>, total thrust 60 on mass 6 along \<open>(0, 0, 1)\<close>, velocity
  \<open>(0, 0, 1)\<close> and \<open>dt = 0.5\<close>, the observer's error is \<open>(0, 0, 1.81)\<close> and the error
  computed with \<open>g = 10\<close> is \<open>(0, 0, 2)\<close>: the observer's error signal is offset by
  \<open>(0, 0, -0.19)\<close>, not by \<open>(0, 0, g - 9.81) = (0, 0, 0.19)\<close>.
\<close>

theorem update_gravity_offset_counterexample:
  "observer_error (DisturbanceObserver_init (Fin 6) None)
        (zeros3, (Fin 0, Fin 0, Fin 1)) (Fin 0, Fin 0, Fin 1) (Fin 60) (Fin 0.5)
      = (Fin 0, Fin 0, Fin 1.81)
   \<and> spec_observer_error
        (uav_G (SixRotorUAV_init (Fin 6) (Fin 10) (Fin 0.1, Fin 0.1, Fin 0.1) (Fin 0.05)))
        (DisturbanceObserver_init (Fin 6) None)
        (zeros3, (Fin 0, Fin 0, Fin 1)) (Fin 0, Fin 0, Fin 1) (Fin 60) (Fin 0.5)
      = (Fin 0, Fin 0, Fin 2)
   \<and> observer_error (DisturbanceObserver_init (Fin 6) None)
        (zeros3, (Fin 0, Fin 0, Fin 1)) (Fin 0, Fin 0, Fin 1) (Fin 60) (Fin 0.5)
      \<noteq> v3_add
          (spec_observer_error
             (uav_G (SixRotorUAV_init (Fin 6) (Fin 10) (Fin 0.1, Fin 0.1, Fin 0.1) (Fin 0.05)))
             (DisturbanceObserver_init (Fin 6) None)
             (zeros3, (Fin 0, Fin 0, Fin 1)) (Fin 0, Fin 0, Fin 1) (Fin 60) (Fin 0.5))
          (Fin 0, Fin 0, Fin (10 - 9.81))"
  by (simp add: DisturbanceObserver_init_def SixRotorUAV_init_def zeros3_def
      spec_observer_error_def observer_error_def actual_accel_def
      nominal_accel_def spec_nominal_accel_def fl_sub_def)


section \<open>Fault detection and compensation\<close>

lemma flags_map2:
  "map f (map fl_abs (map2 fl_sub ms es)) = map2 (\<lambda>m e. f (fl_abs (fl_sub m e))) ms es"
  by (simp add: case_prod_beta comp_def)

lemma flags_Fin:
  "length ms = length es \<Longrightarrow>
   map (\<lambda>e. if fl_lt e (Fin t) then Fin 1 else Fin 0)
       (map fl_abs (map2 fl_sub (map Fin ms) (map Fin es)))
     = map2 (\<lambda>m e. if \<bar>m - e\<bar> < t then Fin 1 else Fin 0) ms es"
  by (induction ms es rule: list_induct2) (simp_all add: fl_sub_def)

lemma detect_faults_Fin:
  assumes "length ms = length es" and "threshold c = Fin t"
  shows "detect_faults c (map Fin ms) (map Fin es) =
     (let flags = map2 (\<lambda>m e. if \<bar>m - e\<bar> < t then Fin 1 else Fin 0) ms es
      in Inr (c\<lparr>rotor_states := flags\<rparr>, flags))"
proof -
  have "np_broadcast fl_sub (map Fin ms) (map Fin es)
          = Inr (map2 fl_sub (map Fin ms) (map Fin es))"
    using assms(1) by (simp add: np_broadcast_def)
  then show ?thesis
    unfolding detect_faults_def Let_def assms(2)
    by (simp only: sum.case flags_Fin [OF assms(1)])
qed

text \<open>
  C5. For every pair of measured and expected speed sequences of equal length,
  \<open>detect_faults\<close> raises nothing, stores the flags it returns, one per rotor, and the
  flag of rotor \<open>k\<close> is 1 when \<open>|measured\<^sub>k - expected\<^sub>k| < threshold\<close> and 0 otherwise.
  This holds as numpy compares for all float inputs (first part), and in real arithmetic
  for real speeds and a real threshold \<open>t\<close> (second part); there a rotor whose absolute
  error is exactly \<open>t\<close> gets the flag 0.
\<close>

theorem detect_faults_strictly_below_threshold:
  "(length ms = length es \<longrightarrow>
      detect_faults c ms es =
        (let flags = map2 (\<lambda>m e. if fl_lt (fl_abs (fl_sub m e)) (threshold c) then Fin 1 else Fin 0)
                       ms es
         in Inr (c\<lparr>rotor_states := flags\<rparr>, flags)))
   \<and> (length rs = length xs \<and> threshold c = Fin t \<longrightarrow>
       (\<exists>flags.
          detect_faults c (map Fin rs) (map Fin xs) = Inr (c\<lparr>rotor_states := flags\<rparr>, flags)
          \<and> length flags = length rs
          \<and> (\<forall>k<length rs. flags ! k = (if \<bar>rs ! k - xs ! k\<bar> < t then Fin 1 else Fin 0))
          \<and> (\<forall>k<length rs. \<bar>rs ! k - xs ! k\<bar> = t \<longrightarrow> flags ! k = Fin 0)))"
proof (intro conjI impI)
  assume "length ms = length es"
  then have "np_broadcast fl_sub ms es = Inr (map2 fl_sub ms es)"
    by (simp add: np_broadcast_def)
  then show "detect_faults c ms es =
        (let flags = map2 (\<lambda>m e. if fl_lt (fl_abs (fl_sub m e)) (threshold c) then Fin 1 else Fin 0)
                       ms es
         in Inr (c\<lparr>rotor_states := flags\<rparr>, flags))"
    unfolding detect_faults_def Let_def by (simp only: sum.case flags_map2)
next
  assume "length rs = length xs \<and> threshold c = Fin t"
  then have len: "length rs = length xs" and thr: "threshold c = Fin t"
    by simp_all
  let ?flags = "map2 (\<lambda>m e. if \<bar>m - e\<bar> < t then Fin 1 else Fin 0) rs xs"
  have "detect_faults c (map Fin rs) (map Fin xs) = Inr (c\<lparr>rotor_states := ?flags\<rparr>, ?flags)"
    using detect_faults_Fin [OF len thr] by (simp add: Let_def)
  moreover have "length ?flags = length rs"
    using len by simp
  moreover have "\<forall>k<length rs. ?flags ! k = (if \<bar>rs ! k - xs ! k\<bar> < t then Fin 1 else Fin 0)"
    using len by simp
  ultimately show "\<exists>flags.
          detect_faults c (map Fin rs) (map Fin xs) = Inr (c\<lparr>rotor_states := flags\<rparr>, flags)
          \<and> length flags = length rs
          \<and> (\<forall>k<length rs. flags ! k = (if \<bar>rs ! k - xs ! k\<bar> < t then Fin 1 else Fin 0))
          \<and> (\<forall>k<length rs. \<bar>rs ! k - xs ! k\<bar> = t \<longrightarrow> flags ! k = Fin 0)"
    by auto
qed

text \<open>
  The theorem at six rotors with the threshold 0.5 and the expected speed 400: the errors
  are 0, 0.25, 0.5 (the boundary), 0.75, 0.5 from below (the boundary) and 400.
\<close>

theorem detect_faults_strictly_below_threshold_witness:
  "length [400, 400.25, 400.5, 400.75, 399.5, 0 :: real]
     = length [400, 400, 400, 400, 400, 400 :: real]
   \<and> detect_faults (FDICompensator_init 6 (Fin 0.5))
        [Fin 400, Fin 400.25, Fin 400.5, Fin 400.75, Fin 399.5, Fin 0]
        [Fin 400, Fin 400, Fin 400, Fin 400, Fin 400, Fin 400]
      = Inr (\<lparr>num_rotors = 6, threshold = Fin 0.5,
              rotor_states = [Fin 1, Fin 1, Fin 0, Fin 0, Fin 0, Fin 0]\<rparr>,
             [Fin 1, Fin 1, Fin 0, Fin 0, Fin 0, Fin 0])"
  using detect_faults_strictly_below_threshold
    [where c = "FDICompensator_init 6 (Fin 0.5)" and t = "0.5"
       and rs = "[400, 400.25, 400.5, 400.75, 399.5, 0]"
       and xs = "[400, 400, 400, 400, 400, 400]"
       and ms = "[Fin 400, Fin 400.25, Fin 400.5, Fin 400.75, Fin 399.5, Fin 0]"
       and es = "[Fin 400, Fin 400, Fin 400, Fin 400, Fin 400, Fin 400]"]
  by (simp add: FDICompensator_init_def detect_faults_def np_broadcast_def fl_sub_def Let_def)

lemma foldl_health:
  "\<forall>h\<in>set hs. h = Fin 0 \<or> h = Fin 1 \<Longrightarrow>
   foldl fl_add (Fin a) hs = Fin (a + real (count_list hs (Fin 1)))"
proof (induction hs arbitrary: a)
  case Nil
  show ?case by simp
next
  case (Cons h hs)
  from Cons.prems have h: "h = Fin 0 \<or> h = Fin 1"
    and rest: "\<forall>h\<in>set hs. h = Fin 0 \<or> h = Fin 1"
    by simp_all
  from h show ?case
  proof
    assume "h = Fin 0"
    then show ?thesis using Cons.IH [OF rest, of a] by simp
  next
    assume "h = Fin 1"
    then show ?thesis using Cons.IH [OF rest, of "a + 1"] by (simp add: add.assoc)
  qed
qed

lemma np_sum_health:
  "\<forall>h\<in>set hs. h = Fin 0 \<or> h = Fin 1 \<Longrightarrow> np_sum hs = Fin (real (count_list hs (Fin 1)))"
  unfolding np_sum_def by (simp add: foldl_health)

text \<open>
  C3. For every desired thrust (finite or not) and every health vector of length
  \<open>num_rotors\<close> with entries 0 or 1, the sum of the entries is the number of healthy
  rotors. If it is 0, \<open>compensate_thrust\<close> returns \<open>num_rotors\<close> zeros; otherwise it
  returns \<open>num_rotors\<close> values, the desired thrust divided by the number of healthy
  rotors for each healthy rotor and 0 for each faulty one.
\<close>

theorem compensate_thrust_equal_split:
  assumes "length hs = num_rotors c" and "\<forall>h\<in>set hs. h = Fin 0 \<or> h = Fin 1"
  shows "np_sum hs = Fin (real (count_list hs (Fin 1)))
     \<and> (np_sum hs = Fin 0 \<longrightarrow>
          compensate_thrust c desired hs = replicate (num_rotors c) (Fin 0))
     \<and> (np_sum hs \<noteq> Fin 0 \<longrightarrow>
          length (compensate_thrust c desired hs) = num_rotors c
          \<and> (\<forall>k<num_rotors c. compensate_thrust c desired hs ! k =
                (if hs ! k = Fin 1 then fl_div desired (Fin (real (count_list hs (Fin 1))))
                 else Fin 0)))"
proof -
  let ?n = "count_list hs (Fin 1)"
  have s: "np_sum hs = Fin (real ?n)"
    using assms(2) by (rule np_sum_health)
  have one: "fl_eq (hs ! k) (Fin 1) \<longleftrightarrow> hs ! k = Fin 1" if "k < length hs" for k
    using assms(2) that by (cases "hs ! k") simp_all
  have zero: "compensate_thrust c desired hs = replicate (num_rotors c) (Fin 0)" if "?n = 0"
    using that by (simp add: compensate_thrust_def s np_zeros_def)
  have pos: "compensate_thrust c desired hs =
      map (\<lambda>s. if fl_eq s (Fin 1) then fl_div desired (Fin (real ?n)) else Fin 0) hs"
    if "?n \<noteq> 0"
    using that by (simp add: compensate_thrust_def s)
  show ?thesis
    using s zero pos one assms(1) by auto
qed

text \<open>
  The theorem at six rotors, the health vector \<open>[1, 1, 1, 0, 0, 0]\<close> and the desired
  thrust 300: the result is \<open>[100, 100, 100, 0, 0, 0]\<close>; and at the all-faulty vector,
  where the result is six zeros.
\<close>

theorem compensate_thrust_equal_split_witness:
  "length [Fin 1, Fin 1, Fin 1, Fin 0, Fin 0, Fin 0] = num_rotors (FDICompensator_init 6 (Fin 0.1))
   \<and> np_sum [Fin 1, Fin 1, Fin 1, Fin 0, Fin 0, Fin 0] = Fin 3
   \<and> compensate_thrust (FDICompensator_init 6 (Fin 0.1)) (Fin 300)
        [Fin 1, Fin 1, Fin 1, Fin 0, Fin 0, Fin 0]
      = [Fin 100, Fin 100, Fin 100, Fin 0, Fin 0, Fin 0]
   \<and> compensate_thrust (FDICompensator_init 6 (Fin 0.1)) (Fin 300)
        [Fin 0, Fin 0, Fin 0, Fin 0, Fin 0, Fin 0]
      = [Fin 0, Fin 0, Fin 0, Fin 0, Fin 0, Fin 0]"
  using compensate_thrust_equal_split
    [where c = "FDICompensator_init 6 (Fin 0.1)" and desired = "Fin 300"
       and hs = "[Fin 1, Fin 1, Fin 1, Fin 0, Fin 0, Fin 0]"]
    compensate_thrust_equal_split
    [where c = "FDICompensator_init 6 (Fin 0.1)" and desired = "Fin 300"
       and hs = "[Fin 0, Fin 0, Fin 0, Fin 0, Fin 0, Fin 0]"]
  by (simp add: FDICompensator_init_def compensate_thrust_def np_sum_def np_zeros_def Let_def
      eval_nat_numeral)

end
